theory Spec2Isabelle
  imports Complex_Main "HOL-Library.Char_ord" "HOL-Library.List_Lexorder" "HOL-Library.Multiset"
begin

section \<open>World Bank data helpers (wbclean.py)\<close>

text \<open>
  The module downloads indicator series with \<^verbatim>\<open>pandas_datareader.wb\<close>, reshapes them
  with pandas and optionally writes a CSV file. The remote source, the clock and the
  file system are fields of an explicit state; every function takes the state and
  returns its result (or the exception it raises) together with the new state.

  Strings are compared as Python compares them (lexicographically by code point), which
  is the order of \<^typ>\<open>char list\<close> given by the two order theories imported above.
  Indicator values are floats in the source; only their order and their being missing
  (NaN) matters below, so a value is a \<^typ>\<open>real option\<close> with \<^term>\<open>None\<close> for NaN.
\<close>

subsection \<open>Data\<close>

text \<open>The exceptions that reach the caller: the remote source has no data for the
  request, or the CSV file cannot be written.\<close>

datatype error = DataUnavailable | IOFailure

text \<open>A year argument as the callers pass it: an integer, a string, or \<^verbatim>\<open>None\<close>;
  \<open>PyNaN\<close> is what \<^verbatim>\<open>Index.max()\<close> gives on an empty index.\<close>

datatype pyval = PyNone | PyInt int | PyStr string | PyNaN

text \<open>The location selector: one ISO3 code (or \<^verbatim>\<open>'all'\<close>), or a list of codes.\<close>

datatype selector = Single string | Multiple "string list"

text \<open>One row of the frame \<^verbatim>\<open>wb.download\<close> returns: the index levels \<^verbatim>\<open>country\<close> and
  \<^verbatim>\<open>year\<close> (both strings) and the single column named after the indicator.\<close>

record observation =
  country :: string
  year :: string
  val :: "real option"

record query =
  q_indicator :: string
  q_country :: selector
  q_start :: pyval
  q_end :: pyval

text \<open>One row of \<^verbatim>\<open>wb.get_countries()\<close>, restricted to the columns the module reads.\<close>

record location =
  iso2c :: string
  name :: string
  region :: string

text \<open>The calls made to the remote source, in the order they are made.\<close>

datatype request = Download query | Get_countries

text \<open>A field of a frame or of a file: a string, a number, or a missing number. A CSV
  file is its header row and its lines.\<close>

datatype cell = S string | N real | NaN

record csv =
  header :: "string list"
  body :: "cell list list"

text \<open>The state: what the remote source answers to a download and to the metadata
  request, the clock reading in the format \<^verbatim>\<open>%d-%m-%Y %H-%M\<close> used in file names, which
  paths can be written, the files written so far, the requests made so far, the lines
  printed, and the module's global variable \<^verbatim>\<open>indicator_name\<close>.\<close>

record state =
  download :: "query \<Rightarrow> error + observation list"
  get_countries :: "error + location list"
  now :: string
  writable :: "string \<Rightarrow> bool"
  files :: "string \<rightharpoonup> csv"
  requests :: "request list"
  stdout :: "string list"
  indicator_name :: "string option"

text \<open>The frame \<^verbatim>\<open>get_wb_data\<close> builds: \<^verbatim>\<open>Year\<close> is the index, \<^verbatim>\<open>Region\<close> and the
  indicator are the columns.\<close>

record indexed_row =
  Year :: string
  Region :: string
  "value" :: "real option"

record indexed_table =
  index_names :: "string list"
  columns :: "string list"
  rows :: "indexed_row list"

subsection \<open>The collaborators: remote source and file system\<close>

definition wb_download :: "state \<Rightarrow> query \<Rightarrow> (error + observation list) \<times> state" where
  "wb_download s q = (download s q, s\<lparr>requests := requests s @ [Download q]\<rparr>)"

definition wb_get_countries :: "state \<Rightarrow> (error + location list) \<times> state" where
  "wb_get_countries s = (get_countries s, s\<lparr>requests := requests s @ [Get_countries]\<rparr>)"

definition write_file :: "state \<Rightarrow> string \<Rightarrow> csv \<Rightarrow> (error + unit) \<times> state" where
  "write_file s path f =
     (if writable s path then (Inr (), s\<lparr>files := (files s)(path \<mapsto> f)\<rparr>)
      else (Inl IOFailure, s))"

definition num :: "real option \<Rightarrow> cell" where
  "num v = (case v of None \<Rightarrow> NaN | Some x \<Rightarrow> N x)"

subsection \<open>The pandas operations of \<^verbatim>\<open>get_wb_data\<close>\<close>

text \<open>\<^verbatim>\<open>DataFrame.dropna()\<close>: keep the rows none of whose columns is missing.\<close>

definition dropna :: "observation list \<Rightarrow> observation list" where
  "dropna df = filter (\<lambda>r. val r \<noteq> None) df"

text \<open>\<^verbatim>\<open>temp_df.index.names = ['Region', 'Year']\<close>: the two index levels are renamed.\<close>

definition rename_index :: "string \<Rightarrow> observation list \<Rightarrow> indexed_table" where
  "rename_index indicator df =
     \<lparr>index_names = [''Region'', ''Year''], columns = [indicator],
      rows = map (\<lambda>r. \<lparr>Year = year r, Region = country r, value = val r\<rparr>) df\<rparr>"

text \<open>\<^verbatim>\<open>reset_index(level=0)\<close>: the first index level becomes the first column.\<close>

definition reset_index_level0 :: "indexed_table \<Rightarrow> indexed_table" where
  "reset_index_level0 t =
     (case index_names t of
        [] \<Rightarrow> t
      | level0 # levels \<Rightarrow> t\<lparr>index_names := levels, columns := level0 # columns t\<rparr>)"

text \<open>\<^verbatim>\<open>sort_values(by='Region')\<close>: rows in ascending order of the column. pandas does not
  promise an order among rows with equal keys; the model takes the stable one.\<close>

definition sort_values_Region :: "indexed_table \<Rightarrow> indexed_table" where
  "sort_values_Region t = t\<lparr>rows := sort_key Region (rows t)\<rparr>"

text \<open>\<^verbatim>\<open>to_csv(path, index=...)\<close>: the header is the column labels, preceded by the index
  label when the index is written; each line is the row's fields, preceded by the index
  value when the index is written.\<close>

definition to_csv_indexed :: "indexed_table \<Rightarrow> bool \<Rightarrow> csv" where
  "to_csv_indexed t index =
     \<lparr>header = (if index then index_names t else []) @ columns t,
      body = map (\<lambda>r. (if index then [S (Year r)] else []) @ [S (Region r), num (value r)])
               (rows t)\<rparr>"

subsection \<open>\<^verbatim>\<open>get_wb_data\<close>\<close>

definition get_wb_data ::
  "state \<Rightarrow> string \<Rightarrow> pyval \<Rightarrow> pyval \<Rightarrow> selector \<Rightarrow> bool \<Rightarrow> (error + indexed_table) \<times> state" where
  "get_wb_data s indicator start_yr end_yr country_sel save_csv =
     (let s1 = s\<lparr>indicator_name := Some indicator\<rparr> in
      case wb_download s1 \<lparr>q_indicator = indicator, q_country = country_sel,
                           q_start = start_yr, q_end = end_yr\<rparr> of
        (Inl e, s2) \<Rightarrow> (Inl e, s2)
      | (Inr temp_df, s2) \<Rightarrow>
          (let temp_df = dropna temp_df;
               temp_df = rename_index indicator temp_df;
               temp_df = sort_values_Region (reset_index_level0 temp_df)
           in if save_csv then
                (case write_file s2 (indicator @ ''_'' @ now s2 @ ''.csv'')
                        (to_csv_indexed temp_df False) of
                   (Inl e, s3) \<Rightarrow> (Inl e, s3)
                 | (Inr u, s3) \<Rightarrow> (Inr temp_df, s3))
              else (Inr temp_df, s2)))"

subsection \<open>The pandas operations of \<^verbatim>\<open>to_flourish\<close>\<close>

text \<open>A frame with the default integer index: its column labels, and each row as the
  list of its labelled fields in column order.\<close>

type_synonym row = "(string \<times> cell) list"

record frame =
  f_columns :: "string list"
  f_rows :: "row list"

text \<open>The result of \<^verbatim>\<open>pd.pivot_table(df, values=indicator, columns='year', index='country')\<close>:
  the index holds the countries, the columns the years.\<close>

record pivoted =
  pv_index :: "string list"
  pv_columns :: "string list"
  pv_data :: "real option list list"

text \<open>The default aggregation is the mean of the group's values, missing ones skipped;
  a group with no value left has none.\<close>

definition mean :: "real list \<Rightarrow> real option" where
  "mean vs = (if vs = [] then None else Some (sum_list vs / real (length vs)))"

definition group_values :: "observation list \<Rightarrow> string \<Rightarrow> string \<Rightarrow> real list" where
  "group_values df c y =
     map (\<lambda>r. the (val r)) (filter (\<lambda>r. country r = c \<and> year r = y \<and> val r \<noteq> None) df)"

text \<open>\<^verbatim>\<open>pivot_table\<close> groups the rows by (country, year), aggregates each group and (with
  the default \<^verbatim>\<open>dropna=True\<close>) drops the groups whose aggregate is missing before it
  unstacks the years into columns: the index is the sorted countries and the columns
  the sorted years of the groups that are left.\<close>

definition pivot_table :: "observation list \<Rightarrow> pivoted" where
  "pivot_table df =
     (let agged = filter (\<lambda>r. val r \<noteq> None) df;
          cs = sort (remdups (map country agged));
          ys = sort (remdups (map year agged))
      in \<lparr>pv_index = cs, pv_columns = ys,
          pv_data = map (\<lambda>c. map (\<lambda>y. mean (group_values df c y)) ys) cs\<rparr>)"

text \<open>\<^verbatim>\<open>reset_index()\<close> on the pivoted frame: the index becomes the column \<^verbatim>\<open>country\<close>.\<close>

definition reset_index :: "pivoted \<Rightarrow> frame" where
  "reset_index p =
     \<lparr>f_columns = ''country'' # pv_columns p,
      f_rows = map (\<lambda>(c, vs). (''country'', S c) # zip (pv_columns p) (map num vs))
                 (zip (pv_index p) (pv_data p))\<rparr>"

text \<open>\<^verbatim>\<open>country_info[['iso2c', 'name', 'region']]\<close>.\<close>

definition select_columns :: "location list \<Rightarrow> frame" where
  "select_columns country_info =
     \<lparr>f_columns = [''iso2c'', ''name'', ''region''],
      f_rows = map (\<lambda>l. [(''iso2c'', S (iso2c l)), (''name'', S (name l)),
                          (''region'', S (region l))]) country_info\<rparr>"

text \<open>\<^verbatim>\<open>pd.merge(left, right, left_on=..., right_on=...)\<close> with the default
  \<^verbatim>\<open>how='inner'\<close>: one row for each pair of a left and a right row with equal keys, the
  left row's fields followed by the right row's.\<close>

definition merge :: "frame \<Rightarrow> frame \<Rightarrow> string \<Rightarrow> string \<Rightarrow> frame" where
  "merge left right left_on right_on =
     \<lparr>f_columns = f_columns left @ f_columns right,
      f_rows = concat (map (\<lambda>l. map (\<lambda>r. l @ r)
                 (filter (\<lambda>r. map_of r right_on = map_of l left_on) (f_rows right)))
                 (f_rows left))\<rparr>"

text \<open>\<^verbatim>\<open>df[label]\<close>: the column as a series.\<close>

definition column :: "frame \<Rightarrow> string \<Rightarrow> cell list" where
  "column f label = map (\<lambda>r. case map_of r label of Some c \<Rightarrow> c | None \<Rightarrow> NaN) (f_rows f)"

text \<open>The function applied to the column \<^verbatim>\<open>iso2c\<close>, an f-string around the code.\<close>

definition flag_url :: "cell \<Rightarrow> cell" where
  "flag_url c = (case c of S i \<Rightarrow> S (''https://www.countryflags.io/'' @ i @ ''/flat/64.png'')
                 | _ \<Rightarrow> NaN)"

text \<open>\<^verbatim>\<open>df.insert(loc, label, values)\<close>: a new column at position \<open>loc\<close>.\<close>

definition insert_column :: "frame \<Rightarrow> nat \<Rightarrow> string \<Rightarrow> cell list \<Rightarrow> frame" where
  "insert_column f loc label vs =
     \<lparr>f_columns = take loc (f_columns f) @ [label] @ drop loc (f_columns f),
      f_rows = map (\<lambda>(r, v). take loc r @ [(label, v)] @ drop loc r) (zip (f_rows f) vs)\<rparr>"

text \<open>\<^verbatim>\<open>df.drop(columns=labels)\<close>.\<close>

definition drop_columns :: "frame \<Rightarrow> string list \<Rightarrow> frame" where
  "drop_columns f labels =
     \<lparr>f_columns = filter (\<lambda>c. c \<notin> set labels) (f_columns f),
      f_rows = map (filter (\<lambda>(k, v). k \<notin> set labels)) (f_rows f)\<rparr>"

text \<open>\<^verbatim>\<open>df.to_csv(path, index=False)\<close>: the column labels, then the fields of each row.\<close>

definition to_csv :: "frame \<Rightarrow> csv" where
  "to_csv f = \<lparr>header = f_columns f, body = map (map snd) (f_rows f)\<rparr>"

subsection \<open>\<^verbatim>\<open>to_flourish\<close>\<close>

text \<open>The first \<^verbatim>\<open>reset_index()\<close> turns the two index levels of the downloaded frame into
  columns, which the observation rows already carry as fields. The year labels are the
  remote source's; the model takes them to differ from the fixed labels
  \<^verbatim>\<open>iso2c\<close>, \<^verbatim>\<open>name\<close>, \<^verbatim>\<open>region\<close>, \<^verbatim>\<open>country\<close> and \<^verbatim>\<open>Image URL\<close> (pandas renames or
  rejects coinciding labels), and the theorems that depend on it say so.\<close>

definition to_flourish ::
  "state \<Rightarrow> string \<Rightarrow> pyval \<Rightarrow> pyval \<Rightarrow> selector \<Rightarrow> bool \<Rightarrow> (error + frame) \<times> state" where
  "to_flourish s indicator start_yr end_yr country_sel save_csv =
     (case wb_download s \<lparr>q_indicator = indicator, q_country = country_sel,
                          q_start = start_yr, q_end = end_yr\<rparr> of
        (Inl e, s1) \<Rightarrow> (Inl e, s1)
      | (Inr df, s1) \<Rightarrow>
          (let df = reset_index (pivot_table df);
               s2 = s1\<lparr>stdout := stdout s1 @ [''Processed the Indicator Data'']\<rparr>
           in case wb_get_countries s2 of
                (Inl e, s3) \<Rightarrow> (Inl e, s3)
              | (Inr country_info, s3) \<Rightarrow>
                  (let country_info = filter (\<lambda>l. region l \<noteq> ''Aggregates'') country_info;
                       df_merged = merge (select_columns country_info) df ''name'' ''country'';
                       df_merged = insert_column df_merged 3 ''Image URL''
                                     (map flag_url (column df_merged ''iso2c''));
                       df_merged = drop_columns df_merged [''iso2c'', ''country'']
                   in if save_csv then
                        (case write_file s3
                                (''flourish_data/flourish_'' @ indicator @ ''_'' @ now s3 @ ''.csv'')
                                (to_csv df_merged) of
                           (Inl e, s4) \<Rightarrow> (Inl e, s4)
                         | (Inr u, s4) \<Rightarrow> (Inr df_merged, s4))
                      else (Inr df_merged, s3))))"

text \<open>Names for the parts of the result: the index and the columns of the pivoted frame,
  and the row that the join, the inserted column and the dropped columns leave for a
  metadata row \<open>l\<close> and a pivoted country \<open>c\<close>.\<close>

definition pivot_countries :: "observation list \<Rightarrow> string list" where
  "pivot_countries df = sort (remdups (map country (dropna df)))"

definition pivot_years :: "observation list \<Rightarrow> string list" where
  "pivot_years df = sort (remdups (map year (dropna df)))"

definition joined_row :: "observation list \<Rightarrow> location \<Rightarrow> string \<Rightarrow> row" where
  "joined_row df l c =
     [(''name'', S (name l)), (''region'', S (region l)),
      (''Image URL'', S (''https://www.countryflags.io/'' @ iso2c l @ ''/flat/64.png''))]
     @ filter (\<lambda>(k, v). k \<noteq> ''iso2c'' \<and> k \<noteq> ''country'')
         (map (\<lambda>y. (y, num (mean (group_values df c y)))) (pivot_years df))"

subsection \<open>\<^verbatim>\<open>plot_bar_chart\<close>\<close>

text \<open>Python's \<^verbatim>\<open>str\<close> on a year argument: decimal digits for an integer.\<close>

fun str_nat :: "nat \<Rightarrow> string" where
  "str_nat n = (if n < 10 then [''0123456789'' ! n]
                else str_nat (n div 10) @ [''0123456789'' ! (n mod 10)])"

definition str :: "pyval \<Rightarrow> string" where
  "str v = (case v of PyNone \<Rightarrow> ''None''
            | PyInt i \<Rightarrow> (if i < 0 then CHR ''-'' # str_nat (nat (- i)) else str_nat (nat i))
            | PyStr s \<Rightarrow> s
            | PyNaN \<Rightarrow> ''nan'')"

text \<open>\<^verbatim>\<open>df.index.max()\<close>: the greatest index value, NaN on an empty index.\<close>

definition index_max :: "indexed_row list \<Rightarrow> pyval" where
  "index_max df = (case map Year df of [] \<Rightarrow> PyNaN | y # ys \<Rightarrow> PyStr (fold max ys y))"

text \<open>\<^verbatim>\<open>sort_values(by=indicator, ascending=False)\<close>: rows in descending order of the value,
  rows with a missing value last.\<close>

definition sort_values_desc :: "indexed_row list \<Rightarrow> indexed_row list" where
  "sort_values_desc df =
     sort_key (\<lambda>r. - the (value r)) (filter (\<lambda>r. value r \<noteq> None) df)
       @ filter (\<lambda>r. value r = None) df"

text \<open>What the function hands to the plotting library: the frame given to
  \<^verbatim>\<open>sns.barplot\<close> and the year shown in the title. Drawing, the rounded value labels and
  the axis limit are the library's business and are not modelled.\<close>

record bar_chart =
  plotted_year :: pyval
  barplot_data :: "indexed_row list"
  title_year :: pyval

definition plot_bar_chart ::
  "state \<Rightarrow> string \<Rightarrow> pyval \<Rightarrow> selector \<Rightarrow> (error + bar_chart) \<times> state" where
  "plot_bar_chart s indicator year_arg country_sel =
     (case get_wb_data s indicator year_arg year_arg country_sel False of
        (Inl e, s1) \<Rightarrow> (Inl e, s1)
      | (Inr t, s1) \<Rightarrow>
          (let df = rows t;
               year_arg = (if year_arg = PyNone then index_max df else year_arg);
               df = sort_key Region (filter (\<lambda>r. Year r = str year_arg) df)
           in (Inr \<lparr>plotted_year = year_arg, barplot_data = sort_values_desc df,
                    title_year = index_max df\<rparr>, s1)))"

subsection \<open>Sample sessions\<close>

text \<open>The scenario of the specification: total population of the United States and
  Canada for 2010 to 2012 (in millions), every value present, the rows in the order the
  remote source sends them.\<close>

definition pop_query :: query where
  "pop_query = \<lparr>q_indicator = ''SP.POP.TOTL'', q_country = Multiple [''USA'', ''CAN''],
                q_start = PyInt 2010, q_end = PyInt 2012\<rparr>"

definition pop_observations :: "observation list" where
  "pop_observations =
     [\<lparr>country = ''United States'', year = ''2012'', val = Some 314\<rparr>,
      \<lparr>country = ''United States'', year = ''2011'', val = Some 312\<rparr>,
      \<lparr>country = ''United States'', year = ''2010'', val = Some 309\<rparr>,
      \<lparr>country = ''Canada'', year = ''2012'', val = Some 35\<rparr>,
      \<lparr>country = ''Canada'', year = ''2011'', val = Some 34\<rparr>,
      \<lparr>country = ''Canada'', year = ''2010'', val = Some 33\<rparr>]"

definition pop_locations :: "location list" where
  "pop_locations =
     [\<lparr>iso2c = ''CA'', name = ''Canada'', region = ''North America''\<rparr>,
      \<lparr>iso2c = ''US'', name = ''United States'', region = ''North America''\<rparr>,
      \<lparr>iso2c = ''1W'', name = ''World'', region = ''Aggregates''\<rparr>]"

definition pop_state :: state where
  "pop_state =
     \<lparr>download = (\<lambda>q. if q = pop_query then Inr pop_observations else Inl DataUnavailable),
      get_countries = Inr pop_locations,
      now = ''03-11-2026 17-30'',
      writable = (\<lambda>path. True),
      files = Map.empty,
      requests = [],
      stdout = [],
      indicator_name = None\<rparr>"

definition pop_table :: indexed_table where
  "pop_table =
     \<lparr>index_names = [''Year''], columns = [''Region'', ''SP.POP.TOTL''],
      rows = [\<lparr>Year = ''2012'', Region = ''Canada'', value = Some 35\<rparr>,
              \<lparr>Year = ''2011'', Region = ''Canada'', value = Some 34\<rparr>,
              \<lparr>Year = ''2010'', Region = ''Canada'', value = Some 33\<rparr>,
              \<lparr>Year = ''2012'', Region = ''United States'', value = Some 314\<rparr>,
              \<lparr>Year = ''2011'', Region = ''United States'', value = Some 312\<rparr>,
              \<lparr>Year = ''2010'', Region = ''United States'', value = Some 309\<rparr>]\<rparr>"

text \<open>A second session: GDP per head for every location, 2010 to 2011. No value of 2011 is
  published yet, \<open>Atlantis\<close> is a location the metadata does not know, and \<open>World\<close> is an
  aggregate.\<close>

definition gdp_query :: query where
  "gdp_query = \<lparr>q_indicator = ''NY.GDP.PCAP.CD'', q_country = Single ''all'',
                q_start = PyInt 2010, q_end = PyInt 2011\<rparr>"

definition gdp_observations :: "observation list" where
  "gdp_observations =
     [\<lparr>country = ''World'', year = ''2011'', val = None\<rparr>,
      \<lparr>country = ''World'', year = ''2010'', val = Some 9\<rparr>,
      \<lparr>country = ''Atlantis'', year = ''2011'', val = None\<rparr>,
      \<lparr>country = ''Atlantis'', year = ''2010'', val = Some 12\<rparr>,
      \<lparr>country = ''Canada'', year = ''2011'', val = None\<rparr>,
      \<lparr>country = ''Canada'', year = ''2010'', val = Some 47\<rparr>]"

definition gdp_state :: state where
  "gdp_state =
     \<lparr>download = (\<lambda>q. if q = gdp_query then Inr gdp_observations else Inl DataUnavailable),
      get_countries = Inr pop_locations,
      now = ''03-11-2026 17-30'',
      writable = (\<lambda>path. True),
      files = Map.empty,
      requests = [],
      stdout = [],
      indicator_name = None\<rparr>"

definition gdp_frame :: frame where
  "gdp_frame =
     \<lparr>f_columns = [''name'', ''region'', ''Image URL'', ''2010''],
      f_rows = [[(''name'', S ''Canada''), (''region'', S ''North America''),
                 (''Image URL'', S ''https://www.countryflags.io/CA/flat/64.png''),
                 (''2010'', N 47)]]\<rparr>"

definition gdp_table :: indexed_table where
  "gdp_table =
     \<lparr>index_names = [''Year''], columns = [''Region'', ''NY.GDP.PCAP.CD''],
      rows = [\<lparr>Year = ''2010'', Region = ''Atlantis'', value = Some 12\<rparr>,
              \<lparr>Year = ''2010'', Region = ''Canada'', value = Some 47\<rparr>,
              \<lparr>Year = ''2010'', Region = ''World'', value = Some 9\<rparr>]\<rparr>"

text \<open>A third session: unemployment rates. The source answers a request for 2019 with
  the three values of the specification's scenario, and a request without years with
  the latest years it has, one value of 2021 still missing.\<close>

definition uem_query :: "pyval \<Rightarrow> query" where
  "uem_query y = \<lparr>q_indicator = ''SL.UEM.TOTL.ZS'',
                  q_country = Multiple [''CAN'', ''ITA'', ''JPN''],
                  q_start = y, q_end = y\<rparr>"

definition uem_2019 :: "observation list" where
  "uem_2019 =
     [\<lparr>country = ''Canada'', year = ''2019'', val = Some 5.1\<rparr>,
      \<lparr>country = ''Italy'', year = ''2019'', val = Some 9.4\<rparr>,
      \<lparr>country = ''Japan'', year = ''2019'', val = Some 2.0\<rparr>]"

definition uem_latest :: "observation list" where
  "uem_latest =
     [\<lparr>country = ''Canada'', year = ''2021'', val = Some 7.5\<rparr>,
      \<lparr>country = ''Canada'', year = ''2020'', val = Some 9.7\<rparr>,
      \<lparr>country = ''Italy'', year = ''2021'', val = Some 9.5\<rparr>,
      \<lparr>country = ''Italy'', year = ''2020'', val = Some 9.3\<rparr>,
      \<lparr>country = ''Japan'', year = ''2021'', val = None\<rparr>,
      \<lparr>country = ''Japan'', year = ''2020'', val = Some 2.8\<rparr>]"

definition uem_state :: state where
  "uem_state =
     \<lparr>download = (\<lambda>q. if q = uem_query (PyInt 2019) then Inr uem_2019
                      else if q = uem_query PyNone then Inr uem_latest
                      else Inl DataUnavailable),
      get_countries = Inr pop_locations,
      now = ''03-11-2026 17-30'',
      writable = (\<lambda>path. True),
      files = Map.empty,
      requests = [],
      stdout = [],
      indicator_name = None\<rparr>"

section \<open>Properties of \<^verbatim>\<open>get_wb_data\<close>\<close>

text \<open>Whenever the function returns a table, the download succeeded and the table is the
  downloaded frame without its missing rows, relabelled and sorted.\<close>

lemma get_wb_data_result:
  assumes "fst (get_wb_data s indicator start_yr end_yr sel save_csv) = Inr t"
  shows "\<exists>df. download s \<lparr>q_indicator = indicator, q_country = sel,
                           q_start = start_yr, q_end = end_yr\<rparr> = Inr df
              \<and> t = \<lparr>index_names = [''Year''], columns = [''Region'', indicator],
                     rows = sort_key Region
                       (map (\<lambda>r. \<lparr>Year = year r, Region = country r, value = val r\<rparr>)
                          (dropna df))\<rparr>"
  using assms
  by (auto simp: get_wb_data_def wb_download_def write_file_def Let_def rename_index_def
        reset_index_level0_def sort_values_Region_def
      split: sum.splits if_splits prod.splits)

text \<open>The sample session, run without writing a file.\<close>

lemma pop_run:
  "get_wb_data pop_state ''SP.POP.TOTL'' (PyInt 2010) (PyInt 2012)
     (Multiple [''USA'', ''CAN'']) False
   = (Inr pop_table,
      pop_state\<lparr>requests := [Download pop_query], indicator_name := Some ''SP.POP.TOTL''\<rparr>)"
  by (simp add: get_wb_data_def wb_download_def Let_def rename_index_def
        reset_index_level0_def sort_values_Region_def dropna_def pop_state_def pop_query_def
        pop_observations_def pop_table_def)

text \<open>The second session, in which the observations of 2011 have no value.\<close>

lemma gdp_table_run:
  "fst (get_wb_data gdp_state ''NY.GDP.PCAP.CD'' (PyInt 2010) (PyInt 2011) (Single ''all'') False)
   = Inr gdp_table"
  by (simp add: get_wb_data_def wb_download_def Let_def rename_index_def
        reset_index_level0_def sort_values_Region_def dropna_def gdp_state_def gdp_query_def
        gdp_observations_def gdp_table_def)

text \<open>
  Claim C1. Whenever the download succeeds, \<^verbatim>\<open>get_wb_data\<close> called without the persist
  flag returns a table, and the years in the index of any table it returns, with the
  flag or without, are exactly the years of the downloaded observations whose value is
  not missing: each of them is in the index, and nothing else is. Observations without
  a value are dropped, they do not make the call fail.
\<close>

theorem get_wb_data_index_years:
  assumes "download s \<lparr>q_indicator = indicator, q_country = sel,
                        q_start = start_yr, q_end = end_yr\<rparr> = Inr df"
  shows "(\<exists>t. fst (get_wb_data s indicator start_yr end_yr sel False) = Inr t
              \<and> set (map Year (rows t)) = year ` {r \<in> set df. val r \<noteq> None})
       \<and> (\<forall>t. fst (get_wb_data s indicator start_yr end_yr sel save_csv) = Inr t
              \<longrightarrow> set (map Year (rows t)) = year ` {r \<in> set df. val r \<noteq> None})"
proof -
  have years: "set (map Year (rows t)) = year ` {r \<in> set df. val r \<noteq> None}"
    if r: "fst (get_wb_data s indicator start_yr end_yr sel flag) = Inr t" for t flag
  proof -
    from get_wb_data_result [OF r] assms
    have "rows t = sort_key Region
            (map (\<lambda>r. \<lparr>Year = year r, Region = country r, value = val r\<rparr>) (dropna df))"
      by auto
    then have "set (map Year (rows t)) = year ` set (dropna df)"
      by (simp add: image_image)
    then show ?thesis
      by (simp add: dropna_def)
  qed
  from assms have "\<exists>t. fst (get_wb_data s indicator start_yr end_yr sel False) = Inr t"
    by (simp add: get_wb_data_def wb_download_def Let_def)
  with years show ?thesis
    by blast
qed

theorem get_wb_data_index_years_witness:
  "download gdp_state gdp_query = Inr gdp_observations
   \<and> ''2011'' \<in> set (map year gdp_observations)
   \<and> fst (get_wb_data gdp_state ''NY.GDP.PCAP.CD'' (PyInt 2010) (PyInt 2011)
            (Single ''all'') False) = Inr gdp_table
   \<and> set (map Year (rows gdp_table)) = year ` {r \<in> set gdp_observations. val r \<noteq> None}
   \<and> set (map Year (rows gdp_table)) = {''2010''}"
proof -
  have h1: "download gdp_state \<lparr>q_indicator = ''NY.GDP.PCAP.CD'', q_country = Single ''all'',
              q_start = PyInt 2010, q_end = PyInt 2011\<rparr> = Inr gdp_observations"
    by (simp add: gdp_state_def gdp_query_def)
  have h2: "''2011'' \<in> set (map year gdp_observations)"
    by (simp add: gdp_observations_def)
  have h3: "fst (get_wb_data gdp_state ''NY.GDP.PCAP.CD'' (PyInt 2010) (PyInt 2011)
            (Single ''all'') False) = Inr gdp_table"
    by (rule gdp_table_run)
  from get_wb_data_index_years [OF h1, of False] h3
  have h4: "set (map Year (rows gdp_table))
              = year ` {r \<in> set gdp_observations. val r \<noteq> None}"
    by simp
  have h5: "set (map Year (rows gdp_table)) = {''2010''}"
    by (simp add: gdp_table_def)
  have h1': "download gdp_state gdp_query = Inr gdp_observations"
    using h1 by (simp only: gdp_query_def)
  from h1' h2 h3 h4 h5 show ?thesis
    by blast
qed


text \<open>A sorted list is determined by its elements and their multiplicities.\<close>

lemma sorted_same_mset:
  fixes xs ys :: "('a::linorder) list"
  assumes "sorted xs" "sorted ys" "mset xs = mset ys"
  shows "xs = ys"
proof -
  have "sort xs = ys" using assms by (intro properties_for_sort) simp_all
  with assms(1) show ?thesis by (simp add: sorted_sort_id)
qed

text \<open>A frame with one row for each of the two countries and three years.\<close>

lemma two_by_three_countries:
  assumes "distinct (map (\<lambda>r. (country r, year r)) df)"
      and "set (map (\<lambda>r. (country r, year r)) df)
             = {''Canada'', ''United States''} \<times> {''2010'', ''2011'', ''2012''}"
  shows "mset (map country df)
         = mset [''Canada'', ''Canada'', ''Canada'',
                 ''United States'', ''United States'', ''United States'']"
proof -
  let ?P = "[(''Canada'', ''2010''), (''Canada'', ''2011''), (''Canada'', ''2012''),
             (''United States'', ''2010''), (''United States'', ''2011''),
             (''United States'', ''2012'')] :: (string \<times> string) list"
  have d: "distinct ?P" by simp
  have s: "set (map (\<lambda>r. (country r, year r)) df) = set ?P"
    unfolding assms(2) by auto
  have "mset (map (\<lambda>r. (country r, year r)) df) = mset ?P"
    using set_eq_iff_mset_eq_distinct [OF assms(1) d] s by blast
  then have "image_mset fst (mset (map (\<lambda>r. (country r, year r)) df)) = image_mset fst (mset ?P)"
    by (rule arg_cong)
  then show ?thesis
    by (simp add: multiset.map_comp comp_def)
qed

text \<open>
  Claim C7. The rows of every table \<^verbatim>\<open>get_wb_data\<close> returns are in ascending order of
  the \<^verbatim>\<open>Region\<close> column. In particular, when the source answers with one observation,
  none missing, for each of Canada and the United States and each of 2010, 2011 and
  2012, the table has six rows, the three of Canada before the three of the United
  States.
\<close>

theorem get_wb_data_sorted_by_region:
  assumes "fst (get_wb_data s indicator start_yr end_yr sel save_csv) = Inr t"
  shows "sorted (map Region (rows t))
         \<and> (\<forall>df. download s \<lparr>q_indicator = indicator, q_country = sel,
                               q_start = start_yr, q_end = end_yr\<rparr> = Inr df
                  \<and> distinct (map (\<lambda>r. (country r, year r)) df)
                  \<and> set (map (\<lambda>r. (country r, year r)) df)
                      = {''Canada'', ''United States''} \<times> {''2010'', ''2011'', ''2012''}
                  \<and> (\<forall>r \<in> set df. val r \<noteq> None)
              \<longrightarrow> map Region (rows t)
                    = [''Canada'', ''Canada'', ''Canada'',
                       ''United States'', ''United States'', ''United States''])"
proof -
  from get_wb_data_result [OF assms] obtain df0 where
    d0: "download s \<lparr>q_indicator = indicator, q_country = sel,
                      q_start = start_yr, q_end = end_yr\<rparr> = Inr df0"
    and r: "rows t = sort_key Region
         (map (\<lambda>r. \<lparr>Year = year r, Region = country r, value = val r\<rparr>) (dropna df0))"
    by auto
  have srt: "sorted (map Region (rows t))"
    unfolding r by (rule sorted_sort_key)
  have ms: "mset (map Region (rows t)) = mset (map country (dropna df0))"
    unfolding r by (simp add: multiset.map_comp comp_def)
  have "map Region (rows t)
          = [''Canada'', ''Canada'', ''Canada'',
             ''United States'', ''United States'', ''United States'']"
    if h: "download s \<lparr>q_indicator = indicator, q_country = sel,
                        q_start = start_yr, q_end = end_yr\<rparr> = Inr df"
        "distinct (map (\<lambda>r. (country r, year r)) df)"
        "set (map (\<lambda>r. (country r, year r)) df)
           = {''Canada'', ''United States''} \<times> {''2010'', ''2011'', ''2012''}"
        "\<forall>r \<in> set df. val r \<noteq> None" for df
  proof -
    from h(1) d0 have e: "df0 = df" by simp
    from h(4) have "dropna df = df" by (simp add: dropna_def)
    with ms e two_by_three_countries [OF h(2) h(3)]
    have "mset (map Region (rows t))
            = mset [''Canada'', ''Canada'', ''Canada'',
                    ''United States'', ''United States'', ''United States'']"
      by simp
    moreover have "sorted [''Canada'', ''Canada'', ''Canada'',
                    ''United States'', ''United States'', ''United States'']"
      by simp
    ultimately show ?thesis
      using srt by (intro sorted_same_mset)
  qed
  with srt show ?thesis by blast
qed

theorem get_wb_data_sorted_by_region_witness:
  "fst (get_wb_data pop_state ''SP.POP.TOTL'' (PyInt 2010) (PyInt 2012)
          (Multiple [''USA'', ''CAN'']) False) = Inr pop_table
   \<and> download pop_state pop_query = Inr pop_observations
   \<and> distinct (map (\<lambda>r. (country r, year r)) pop_observations)
   \<and> set (map (\<lambda>r. (country r, year r)) pop_observations)
        = {''Canada'', ''United States''} \<times> {''2010'', ''2011'', ''2012''}
   \<and> None \<notin> set (map val pop_observations)
   \<and> sorted (map Region (rows pop_table))
   \<and> length (rows pop_table) = 6
   \<and> map Region (rows pop_table)
        = [''Canada'', ''Canada'', ''Canada'',
           ''United States'', ''United States'', ''United States'']"
proof -
  have h1: "fst (get_wb_data pop_state ''SP.POP.TOTL'' (PyInt 2010) (PyInt 2012)
            (Multiple [''USA'', ''CAN'']) False) = Inr pop_table"
    by (simp add: pop_run)
  have h2: "download pop_state \<lparr>q_indicator = ''SP.POP.TOTL'',
              q_country = Multiple [''USA'', ''CAN''],
              q_start = PyInt 2010, q_end = PyInt 2012\<rparr> = Inr pop_observations"
    by (simp add: pop_state_def pop_query_def)
  have h3: "distinct (map (\<lambda>r. (country r, year r)) pop_observations)"
    by (simp add: pop_observations_def)
  have h4: "set (map (\<lambda>r. (country r, year r)) pop_observations)
        = {''Canada'', ''United States''} \<times> {''2010'', ''2011'', ''2012''}"
    by (auto simp: pop_observations_def)
  have h5: "None \<notin> set (map val pop_observations)"
    by (simp add: pop_observations_def)
  then have h5': "\<forall>r \<in> set pop_observations. val r \<noteq> None"
    by (metis image_eqI set_map)
  have h6: "length (rows pop_table) = 6"
    by (simp add: pop_table_def)
  from get_wb_data_sorted_by_region [OF h1] h2 h3 h4 h5'
  have "sorted (map Region (rows pop_table))
        \<and> map Region (rows pop_table)
        = [''Canada'', ''Canada'', ''Canada'',
           ''United States'', ''United States'', ''United States'']"
    by blast
  with h1 h2 h3 h4 h5 h6 show ?thesis
    by (simp add: pop_query_def)
qed

text \<open>The sample session again, this time with the persist flag set.\<close>

lemma pop_run_saved:
  "get_wb_data pop_state ''SP.POP.TOTL'' (PyInt 2010) (PyInt 2012)
     (Multiple [''USA'', ''CAN'']) True
   = (Inr pop_table,
      pop_state\<lparr>files := [''SP.POP.TOTL_03-11-2026 17-30.csv'' \<mapsto>
                    \<lparr>header = [''Region'', ''SP.POP.TOTL''],
                     body = [[S ''Canada'', N 35], [S ''Canada'', N 34], [S ''Canada'', N 33],
                             [S ''United States'', N 314], [S ''United States'', N 312],
                             [S ''United States'', N 309]]\<rparr>],
                requests := [Download pop_query], indicator_name := Some ''SP.POP.TOTL''\<rparr>)"
  by (simp add: get_wb_data_def wb_download_def write_file_def Let_def rename_index_def
        reset_index_level0_def sort_values_Region_def dropna_def to_csv_indexed_def num_def
        pop_state_def pop_query_def pop_observations_def pop_table_def)

text \<open>
  Claim C4. The file \<^verbatim>\<open>get_wb_data\<close> writes should record the \<^verbatim>\<open>Year\<close> index of the table
  beside the columns \<^verbatim>\<open>Region\<close> and the indicator, so that the years of the table can be
  read back from it. The code does not do that. In the sample session the table's
  index holds the years 2010 to 2012, but the file written is the header
  \<^verbatim>\<open>Region, SP.POP.TOTL\<close> and six lines of a region and a value: it is not the table
  written with its index, and no year is in it.
\<close>

theorem get_wb_data_file_without_year:
  "fst (get_wb_data pop_state ''SP.POP.TOTL'' (PyInt 2010) (PyInt 2012)
          (Multiple [''USA'', ''CAN'']) True) = Inr pop_table
   \<and> map Year (rows pop_table) = [''2012'', ''2011'', ''2010'', ''2012'', ''2011'', ''2010'']
   \<and> files (snd (get_wb_data pop_state ''SP.POP.TOTL'' (PyInt 2010) (PyInt 2012)
                    (Multiple [''USA'', ''CAN'']) True)) ''SP.POP.TOTL_03-11-2026 17-30.csv''
       = Some \<lparr>header = [''Region'', ''SP.POP.TOTL''],
               body = [[S ''Canada'', N 35], [S ''Canada'', N 34], [S ''Canada'', N 33],
                       [S ''United States'', N 314], [S ''United States'', N 312],
                       [S ''United States'', N 309]]\<rparr>
   \<and> files (snd (get_wb_data pop_state ''SP.POP.TOTL'' (PyInt 2010) (PyInt 2012)
                    (Multiple [''USA'', ''CAN'']) True)) ''SP.POP.TOTL_03-11-2026 17-30.csv''
       \<noteq> Some (to_csv_indexed pop_table True)"
  by (simp add: pop_run_saved pop_table_def to_csv_indexed_def)

text \<open>On every input the file holds a region and a value for each row of the table and
  nothing of the index, so two tables that differ in their years only are written as
  the same file.\<close>

lemma get_wb_data_written_file:
  assumes "get_wb_data s indicator start_yr end_yr sel True = (Inr t, s')"
  shows "files s' (indicator @ ''_'' @ now s @ ''.csv'')
         = Some \<lparr>header = [''Region'', indicator],
                 body = map (\<lambda>r. [S (Region r), num (value r)]) (rows t)\<rparr>"
  using assms
  by (auto simp: get_wb_data_def wb_download_def write_file_def Let_def rename_index_def
        reset_index_level0_def sort_values_Region_def to_csv_indexed_def
      split: sum.splits if_splits)

section \<open>Properties of \<^verbatim>\<open>to_flourish\<close>\<close>

lemma zip_map_same: "zip xs (map f xs) = map (\<lambda>x. (x, f x)) xs"
  by (induction xs) simp_all

text \<open>The frame handed to the join, and then each step of the join, column by column.\<close>

lemma pivot_frame:
  "reset_index (pivot_table df)
   = \<lparr>f_columns = ''country'' # pivot_years df,
      f_rows = map (\<lambda>c. (''country'', S c)
                     # map (\<lambda>y. (y, num (mean (group_values df c y)))) (pivot_years df))
                 (pivot_countries df)\<rparr>"
  by (simp add: reset_index_def pivot_table_def Let_def dropna_def zip_map_same comp_def
        pivot_years_def pivot_countries_def)

lemma merge_frame:
  "merge (select_columns info)
     \<lparr>f_columns = cols, f_rows = map (\<lambda>c. (''country'', S c) # g c) cs\<rparr> ''name'' ''country''
   = \<lparr>f_columns = [''iso2c'', ''name'', ''region''] @ cols,
      f_rows = concat (map (\<lambda>l. map (\<lambda>c. [(''iso2c'', S (iso2c l)), (''name'', S (name l)),
                                   (''region'', S (region l)), (''country'', S c)] @ g c)
                          (filter (\<lambda>c. c = name l) cs)) info)\<rparr>"
  by (simp add: merge_def select_columns_def comp_def filter_map)

lemma insert_applied_column:
  "insert_column f loc label (map g (column f c))
   = \<lparr>f_columns = take loc (f_columns f) @ [label] @ drop loc (f_columns f),
      f_rows = map (\<lambda>r. take loc r
                            @ [(label, g (case map_of r c of Some x \<Rightarrow> x | None \<Rightarrow> NaN))]
                            @ drop loc r) (f_rows f)\<rparr>"
  by (simp add: insert_column_def column_def zip_map_same comp_def)

lemma flourish_frame:
  "drop_columns
     (insert_column
        (merge (select_columns info) (reset_index (pivot_table df)) ''name'' ''country'')
        3 ''Image URL''
        (map flag_url
           (column (merge (select_columns info) (reset_index (pivot_table df))
                      ''name'' ''country'') ''iso2c'')))
     [''iso2c'', ''country'']
   = \<lparr>f_columns = [''name'', ''region'', ''Image URL'']
                    @ filter (\<lambda>y. y \<noteq> ''iso2c'' \<and> y \<noteq> ''country'') (pivot_years df),
      f_rows = concat (map (\<lambda>l. map (joined_row df l)
                                  (filter (\<lambda>c. c = name l) (pivot_countries df))) info)\<rparr>"
  unfolding pivot_frame merge_frame insert_applied_column
  by (simp add: drop_columns_def comp_def map_concat flag_url_def joined_row_def [abs_def])

text \<open>Whenever the function returns a frame, both requests succeeded and the frame has
  this form.\<close>

lemma to_flourish_result:
  assumes "fst (to_flourish s indicator start_yr end_yr sel save_csv) = Inr t"
  shows "\<exists>df info.
           download s \<lparr>q_indicator = indicator, q_country = sel,
                       q_start = start_yr, q_end = end_yr\<rparr> = Inr df
         \<and> get_countries s = Inr info
         \<and> t = \<lparr>f_columns = [''name'', ''region'', ''Image URL'']
                    @ filter (\<lambda>y. y \<noteq> ''iso2c'' \<and> y \<noteq> ''country'') (pivot_years df),
                f_rows = concat (map (\<lambda>l. map (joined_row df l)
                                  (filter (\<lambda>c. c = name l) (pivot_countries df)))
                            (filter (\<lambda>l. region l \<noteq> ''Aggregates'') info))\<rparr>"
  using assms
  unfolding to_flourish_def wb_download_def wb_get_countries_def write_file_def Let_def
    flourish_frame
  by (auto split: sum.splits if_splits)

lemma to_flourish_rows:
  assumes "fst (to_flourish s indicator start_yr end_yr sel save_csv) = Inr t"
      and "r \<in> set (f_rows t)"
  shows "\<exists>df info l c.
           download s \<lparr>q_indicator = indicator, q_country = sel,
                       q_start = start_yr, q_end = end_yr\<rparr> = Inr df
         \<and> get_countries s = Inr info
         \<and> l \<in> set info \<and> region l \<noteq> ''Aggregates'' \<and> c = name l
         \<and> c \<in> country ` set (dropna df) \<and> r = joined_row df l c"
proof -
  from to_flourish_result [OF assms(1)] obtain df info where
    d: "download s \<lparr>q_indicator = indicator, q_country = sel,
                       q_start = start_yr, q_end = end_yr\<rparr> = Inr df"
    and g: "get_countries s = Inr info"
    and rs: "f_rows t = concat (map (\<lambda>l. map (joined_row df l)
                                  (filter (\<lambda>c. c = name l) (pivot_countries df)))
                            (filter (\<lambda>l. region l \<noteq> ''Aggregates'') info))"
    by auto
  from assms(2) obtain l where "l \<in> set info" "region l \<noteq> ''Aggregates''"
     "name l \<in> set (pivot_countries df)" "r = joined_row df l (name l)"
    unfolding rs by auto
  with d g show ?thesis
    by (auto simp: pivot_countries_def)
qed

text \<open>
  Claim C2. Whatever the indicator, the year range, the location selector and the
  persist flag: in every row of the frame \<^verbatim>\<open>to_flourish\<close> returns, the field \<^verbatim>\<open>region\<close>
  holds a region other than \<^verbatim>\<open>Aggregates\<close>.
\<close>

theorem to_flourish_no_aggregates:
  assumes "fst (to_flourish s indicator start_yr end_yr sel save_csv) = Inr t"
  shows "\<forall>r \<in> set (f_rows t). \<exists>g. g \<noteq> ''Aggregates'' \<and> map_of r ''region'' = Some (S g)"
proof
  fix r assume "r \<in> set (f_rows t)"
  from to_flourish_rows [OF assms this] obtain df l c where
    "region l \<noteq> ''Aggregates''" "r = joined_row df l c"
    by blast
  then show "\<exists>g. g \<noteq> ''Aggregates'' \<and> map_of r ''region'' = Some (S g)"
    by (simp add: joined_row_def)
qed


text \<open>The second session, run with and without the persist flag.\<close>

lemma gdp_pivot:
  "reset_index (pivot_table gdp_observations)
   = \<lparr>f_columns = [''country'', ''2010''],
      f_rows = [[(''country'', S ''Atlantis''), (''2010'', N 12)],
                [(''country'', S ''Canada''), (''2010'', N 47)],
                [(''country'', S ''World''), (''2010'', N 9)]]\<rparr>"
  by (simp add: reset_index_def pivot_table_def Let_def gdp_observations_def group_values_def
        mean_def num_def)

lemma gdp_run:
  "to_flourish gdp_state ''NY.GDP.PCAP.CD'' (PyInt 2010) (PyInt 2011) (Single ''all'') False
   = (Inr gdp_frame,
      gdp_state\<lparr>requests := [Download gdp_query, Get_countries],
                stdout := [''Processed the Indicator Data'']\<rparr>)"
  unfolding to_flourish_def wb_download_def wb_get_countries_def
  apply (simp add: gdp_state_def gdp_query_def)
  apply (simp add: gdp_pivot [unfolded gdp_observations_def] gdp_observations_def Let_def)
  apply (simp add: select_columns_def merge_def column_def flag_url_def insert_column_def
        drop_columns_def gdp_frame_def pop_locations_def)
  done

lemma gdp_run_saved:
  "to_flourish gdp_state ''NY.GDP.PCAP.CD'' (PyInt 2010) (PyInt 2011) (Single ''all'') True
   = (Inr gdp_frame,
      gdp_state\<lparr>files := [''flourish_data/flourish_NY.GDP.PCAP.CD_03-11-2026 17-30.csv'' \<mapsto>
                    \<lparr>header = [''name'', ''region'', ''Image URL'', ''2010''],
                     body = [[S ''Canada'', S ''North America'',
                              S ''https://www.countryflags.io/CA/flat/64.png'', N 47]]\<rparr>],
                requests := [Download gdp_query, Get_countries],
                stdout := [''Processed the Indicator Data'']\<rparr>)"
  unfolding to_flourish_def wb_download_def wb_get_countries_def
  apply (simp add: gdp_state_def gdp_query_def)
  apply (simp add: gdp_pivot [unfolded gdp_observations_def] gdp_observations_def Let_def)
  apply (simp add: write_file_def select_columns_def merge_def column_def flag_url_def
        insert_column_def drop_columns_def to_csv_def gdp_frame_def pop_locations_def)
  done

theorem to_flourish_no_aggregates_witness:
  "fst (to_flourish gdp_state ''NY.GDP.PCAP.CD'' (PyInt 2010) (PyInt 2011) (Single ''all'') False)
     = Inr gdp_frame
   \<and> list_all (\<lambda>r. \<exists>g. g \<noteq> ''Aggregates'' \<and> map_of r ''region'' = Some (S g))
        (f_rows gdp_frame)"
proof -
  have h: "fst (to_flourish gdp_state ''NY.GDP.PCAP.CD'' (PyInt 2010) (PyInt 2011)
                  (Single ''all'') False) = Inr gdp_frame"
    by (simp add: gdp_run)
  from to_flourish_no_aggregates [OF h] h show ?thesis
    by (simp add: list_all_iff)
qed




lemma gdp_source:
  "download gdp_state \<lparr>q_indicator = ''NY.GDP.PCAP.CD'', q_country = Single ''all'',
                        q_start = PyInt 2010, q_end = PyInt 2011\<rparr> = Inr gdp_observations"
  "get_countries gdp_state = Inr pop_locations"
  "set (map year gdp_observations)
     \<inter> {''iso2c'', ''name'', ''region'', ''country'', ''Image URL''} = {}"
  by (simp_all add: gdp_state_def gdp_query_def gdp_observations_def)


text \<open>
  Claim C5, as stated, fails. In the second session, which asks for 2010 to 2011, the
  header of the file written is \<^verbatim>\<open>name, region, Image URL, 2010\<close>: it starts with the
  column \<^verbatim>\<open>name\<close>, the region column is labelled \<^verbatim>\<open>region\<close>, and there is no column for
  2011, a year with no value. The file has one line although the pivoted frame has
  three locations.
\<close>

theorem to_flourish_header_counterexample:
  "files (snd (to_flourish gdp_state ''NY.GDP.PCAP.CD'' (PyInt 2010) (PyInt 2011)
                 (Single ''all'') True))
     ''flourish_data/flourish_NY.GDP.PCAP.CD_03-11-2026 17-30.csv''
   = Some \<lparr>header = [''name'', ''region'', ''Image URL'', ''2010''],
           body = [[S ''Canada'', S ''North America'',
                    S ''https://www.countryflags.io/CA/flat/64.png'', N 47]]\<rparr>
   \<and> [''name'', ''region'', ''Image URL'', ''2010'']
       \<noteq> [''Region'', ''Image URL'', ''2010'', ''2011'']
   \<and> pv_index (pivot_table gdp_observations) = [''Atlantis'', ''Canada'', ''World'']"
  by (simp add: gdp_run_saved pivot_table_def gdp_observations_def)

text \<open>Each metadata row meets at most one pivoted row, the pivoted countries being distinct.\<close>

lemma length_joined:
  assumes "distinct cs"
  shows "length (concat (map (\<lambda>l. map (f l) (filter (\<lambda>c. c = name l) cs)) ls))
         = length (filter (\<lambda>l. name l \<in> set cs) ls)"
proof (induction ls)
  case Nil
  show ?case by simp
next
  case (Cons l ls)
  have "length (filter (\<lambda>c. c = name l) cs) = (if name l \<in> set cs then 1 else 0)"
    using assms by (induction cs) auto
  with Cons show ?case by simp
qed

text \<open>
  Claim C5, amended. When \<^verbatim>\<open>to_flourish\<close> is called with the persist flag set and returns,
  the header row of the file it has written is \<^verbatim>\<open>name, region, Image URL\<close> followed by
  one column for each year in which some downloaded observation has a value, in
  ascending order, and no other column; its lines are the rows of the returned frame,
  one for each metadata row that is not an aggregate and names a pivoted country. The
  year labels are taken to differ from the fixed column labels.
\<close>

theorem to_flourish_persisted_file:
  assumes "to_flourish s indicator start_yr end_yr sel True = (Inr t, s')"
      and "download s \<lparr>q_indicator = indicator, q_country = sel,
                        q_start = start_yr, q_end = end_yr\<rparr> = Inr df"
      and "get_countries s = Inr info"
      and "set (map year df) \<inter> {''iso2c'', ''name'', ''region'', ''country'', ''Image URL''} = {}"
  shows "files s' (''flourish_data/flourish_'' @ indicator @ ''_'' @ now s @ ''.csv'')
         = Some \<lparr>header = [''name'', ''region'', ''Image URL'']
                           @ sort (remdups (map year (dropna df))),
                 body = map (map snd) (f_rows t)\<rparr>
       \<and> length (f_rows t)
         = length (filter (\<lambda>l. region l \<noteq> ''Aggregates''
                              \<and> name l \<in> country ` set (dropna df)) info)"
proof -
  from assms(1) have r: "fst (to_flourish s indicator start_yr end_yr sel True) = Inr t"
    by simp
  from to_flourish_result [OF r] assms(2,3)
  have t: "t = \<lparr>f_columns = [''name'', ''region'', ''Image URL'']
                    @ filter (\<lambda>y. y \<noteq> ''iso2c'' \<and> y \<noteq> ''country'') (pivot_years df),
                f_rows = concat (map (\<lambda>l. map (joined_row df l)
                                  (filter (\<lambda>c. c = name l) (pivot_countries df)))
                            (filter (\<lambda>l. region l \<noteq> ''Aggregates'') info))\<rparr>"
    by auto
  have "set (pivot_years df) \<subseteq> set (map year df)"
    by (auto simp: pivot_years_def dropna_def)
  with assms(4) have "\<forall>y \<in> set (pivot_years df). y \<noteq> ''iso2c'' \<and> y \<noteq> ''country''"
    by auto
  then have ys: "filter (\<lambda>y. y \<noteq> ''iso2c'' \<and> y \<noteq> ''country'') (pivot_years df)
                 = sort (remdups (map year (dropna df)))"
    by (simp add: pivot_years_def)
  from assms(1)
  have "files s' (''flourish_data/flourish_'' @ indicator @ ''_'' @ now s @ ''.csv'')
        = Some (to_csv t)"
    by (auto simp: to_flourish_def wb_download_def wb_get_countries_def write_file_def Let_def
          split: sum.splits if_splits)
  then have f: "files s' (''flourish_data/flourish_'' @ indicator @ ''_'' @ now s @ ''.csv'')
         = Some \<lparr>header = [''name'', ''region'', ''Image URL'']
                           @ sort (remdups (map year (dropna df))),
                 body = map (map snd) (f_rows t)\<rparr>"
    using t ys by (simp add: to_csv_def)
  have d: "distinct (pivot_countries df)"
    by (simp add: pivot_countries_def)
  have n: "length (f_rows t)
         = length (filter (\<lambda>l. region l \<noteq> ''Aggregates''
                              \<and> name l \<in> country ` set (dropna df)) info)"
    unfolding t using length_joined [OF d, of "joined_row df"]
    by (simp add: pivot_countries_def conj_commute)
  from f n show ?thesis by blast
qed

theorem to_flourish_persisted_file_witness:
  "to_flourish gdp_state ''NY.GDP.PCAP.CD'' (PyInt 2010) (PyInt 2011) (Single ''all'') True
     = (Inr gdp_frame,
        snd (to_flourish gdp_state ''NY.GDP.PCAP.CD'' (PyInt 2010) (PyInt 2011)
               (Single ''all'') True))
   \<and> download gdp_state gdp_query = Inr gdp_observations
   \<and> get_countries gdp_state = Inr pop_locations
   \<and> set (map year gdp_observations)
        \<inter> {''iso2c'', ''name'', ''region'', ''country'', ''Image URL''} = {}
   \<and> files (snd (to_flourish gdp_state ''NY.GDP.PCAP.CD'' (PyInt 2010) (PyInt 2011)
                    (Single ''all'') True))
         (''flourish_data/flourish_'' @ ''NY.GDP.PCAP.CD'' @ ''_'' @ now gdp_state @ ''.csv'')
       = Some \<lparr>header = [''name'', ''region'', ''Image URL'']
                         @ sort (remdups (map year (dropna gdp_observations))),
               body = map (map snd) (f_rows gdp_frame)\<rparr>
   \<and> length (f_rows gdp_frame)
       = length (filter (\<lambda>l. region l \<noteq> ''Aggregates''
                            \<and> name l \<in> country ` set (dropna gdp_observations)) pop_locations)"
proof -
  have h: "to_flourish gdp_state ''NY.GDP.PCAP.CD'' (PyInt 2010) (PyInt 2011)
             (Single ''all'') True
           = (Inr gdp_frame,
              snd (to_flourish gdp_state ''NY.GDP.PCAP.CD'' (PyInt 2010) (PyInt 2011)
                     (Single ''all'') True))"
    by (simp add: gdp_run_saved)
  from to_flourish_persisted_file [OF h gdp_source] h gdp_source show ?thesis
    by (simp add: gdp_query_def)
qed

section \<open>The persist flag\<close>

text \<open>
  Claim C10. With the state and the other arguments fixed, each of the two builders
  gives the same result with the persist flag set as with the flag off, unless writing
  the file fails, in which case no table is returned at all; and with the flag off no
  file is written. So the flag decides whether a file is written, never which table is
  returned.
\<close>

theorem persist_flag_only_writes:
  "(fst (get_wb_data s indicator start_yr end_yr sel True)
      = fst (get_wb_data s indicator start_yr end_yr sel False)
    \<or> fst (get_wb_data s indicator start_yr end_yr sel True) = Inl IOFailure)
   \<and> files (snd (get_wb_data s indicator start_yr end_yr sel False)) = files s
   \<and> (fst (to_flourish s indicator start_yr end_yr sel True)
      = fst (to_flourish s indicator start_yr end_yr sel False)
    \<or> fst (to_flourish s indicator start_yr end_yr sel True) = Inl IOFailure)
   \<and> files (snd (to_flourish s indicator start_yr end_yr sel False)) = files s"
proof -
  have g: "(fst (get_wb_data s indicator start_yr end_yr sel True)
      = fst (get_wb_data s indicator start_yr end_yr sel False)
    \<or> fst (get_wb_data s indicator start_yr end_yr sel True) = Inl IOFailure)
   \<and> files (snd (get_wb_data s indicator start_yr end_yr sel False)) = files s"
    by (simp add: get_wb_data_def wb_download_def write_file_def Let_def split: sum.splits)
  have f: "(fst (to_flourish s indicator start_yr end_yr sel True)
      = fst (to_flourish s indicator start_yr end_yr sel False)
    \<or> fst (to_flourish s indicator start_yr end_yr sel True) = Inl IOFailure)
   \<and> files (snd (to_flourish s indicator start_yr end_yr sel False)) = files s"
    by (simp add: to_flourish_def wb_download_def wb_get_countries_def write_file_def Let_def
          split: sum.splits)
  from g f show ?thesis by blast
qed

section \<open>Properties of \<^verbatim>\<open>plot_bar_chart\<close>\<close>

text \<open>The third session, with the year given and without.\<close>

lemma uem_run_2019:
  "fst (plot_bar_chart uem_state ''SL.UEM.TOTL.ZS'' (PyInt 2019)
          (Multiple [''CAN'', ''ITA'', ''JPN'']))
   = Inr \<lparr>plotted_year = PyInt 2019,
          barplot_data = [\<lparr>Year = ''2019'', Region = ''Italy'', value = Some 9.4\<rparr>,
                          \<lparr>Year = ''2019'', Region = ''Canada'', value = Some 5.1\<rparr>,
                          \<lparr>Year = ''2019'', Region = ''Japan'', value = Some 2.0\<rparr>],
          title_year = PyStr ''2019''\<rparr>"
  by (simp add: plot_bar_chart_def get_wb_data_def wb_download_def Let_def rename_index_def
        reset_index_level0_def sort_values_Region_def dropna_def uem_state_def uem_query_def
        uem_2019_def str_def index_max_def sort_values_desc_def del: not_None_eq)

lemma uem_run_latest:
  "plot_bar_chart uem_state ''SL.UEM.TOTL.ZS'' PyNone (Multiple [''CAN'', ''ITA'', ''JPN''])
   = (Inr \<lparr>plotted_year = PyStr ''2021'',
          barplot_data = [\<lparr>Year = ''2021'', Region = ''Italy'', value = Some 9.5\<rparr>,
                          \<lparr>Year = ''2021'', Region = ''Canada'', value = Some 7.5\<rparr>],
          title_year = PyStr ''2021''\<rparr>,
      uem_state\<lparr>requests := [Download (uem_query PyNone)],
                 indicator_name := Some ''SL.UEM.TOTL.ZS''\<rparr>)"
  by (simp add: plot_bar_chart_def get_wb_data_def wb_download_def Let_def rename_index_def
        reset_index_level0_def sort_values_Region_def dropna_def uem_state_def uem_query_def
        uem_latest_def str_def index_max_def sort_values_desc_def del: not_None_eq)


text \<open>\<^verbatim>\<open>index.max()\<close> is the greatest year of a table that has rows.\<close>

lemma index_max_Max:
  "df \<noteq> [] \<Longrightarrow> index_max df = PyStr (Max (set (map Year df)))"
proof (cases df)
  case Nil
  assume "df \<noteq> []"
  with Nil show ?thesis by simp
next
  case (Cons a list)
  have "Max (set (Year a # map Year list)) = fold max (map Year list) (Year a)"
    by (rule Max.set_eq_fold)
  with Cons show ?thesis
    by (simp add: index_max_def)
qed

lemma index_max_empty: "index_max [] = PyNaN"
  by (simp add: index_max_def)

text \<open>Whenever a chart is drawn, the table was fetched with the year argument as both
  ends of the range, and the bars are that table's rows of the year plotted.\<close>

lemma plot_bar_chart_result:
  assumes "fst (plot_bar_chart s indicator year_arg sel) = Inr chart"
  shows "\<exists>t. fst (get_wb_data s indicator year_arg year_arg sel False) = Inr t
           \<and> plotted_year chart = (if year_arg = PyNone then index_max (rows t) else year_arg)
           \<and> barplot_data chart
               = sort_values_desc
                   (sort_key Region (filter (\<lambda>r. Year r = str (plotted_year chart)) (rows t)))"
  using assms
  by (auto simp: plot_bar_chart_def Let_def split: sum.splits prod.splits)

text \<open>
  Claim C6. Called with no year, \<^verbatim>\<open>plot_bar_chart\<close> issues exactly one download, whose start
  and end are both the unresolved year \<^verbatim>\<open>None\<close>; and when a chart is drawn, the year
  plotted is computed from the table that request fetched: it is the greatest year in
  the table's index (and NaN when the table has no rows).
\<close>

theorem plot_bar_chart_default_year:
  "requests (snd (plot_bar_chart s indicator PyNone sel))
     = requests s @ [Download \<lparr>q_indicator = indicator, q_country = sel,
                               q_start = PyNone, q_end = PyNone\<rparr>]
   \<and> (\<forall>chart. fst (plot_bar_chart s indicator PyNone sel) = Inr chart \<longrightarrow>
         (\<exists>t. fst (get_wb_data s indicator PyNone PyNone sel False) = Inr t
            \<and> (rows t \<noteq> [] \<longrightarrow> plotted_year chart = PyStr (Max (set (map Year (rows t)))))
            \<and> (rows t = [] \<longrightarrow> plotted_year chart = PyNaN)))"
proof -
  have a: "requests (snd (plot_bar_chart s indicator PyNone sel))
     = requests s @ [Download \<lparr>q_indicator = indicator, q_country = sel,
                               q_start = PyNone, q_end = PyNone\<rparr>]"
    by (simp add: plot_bar_chart_def get_wb_data_def wb_download_def Let_def
          split: sum.splits)
  have b: "\<exists>t. fst (get_wb_data s indicator PyNone PyNone sel False) = Inr t
            \<and> (rows t \<noteq> [] \<longrightarrow> plotted_year chart = PyStr (Max (set (map Year (rows t)))))
            \<and> (rows t = [] \<longrightarrow> plotted_year chart = PyNaN)"
    if "fst (plot_bar_chart s indicator PyNone sel) = Inr chart" for chart
  proof -
    from plot_bar_chart_result [OF that] obtain t where
      t: "fst (get_wb_data s indicator PyNone PyNone sel False) = Inr t"
         "plotted_year chart = index_max (rows t)"
      by auto
    show ?thesis
      using t index_max_Max [of "rows t"] index_max_empty by auto
  qed
  from a b show ?thesis by blast
qed

theorem plot_bar_chart_default_year_witness:
  "requests (snd (plot_bar_chart uem_state ''SL.UEM.TOTL.ZS'' PyNone
                    (Multiple [''CAN'', ''ITA'', ''JPN''])))
     = requests uem_state @ [Download \<lparr>q_indicator = ''SL.UEM.TOTL.ZS'',
                                       q_country = Multiple [''CAN'', ''ITA'', ''JPN''],
                                       q_start = PyNone, q_end = PyNone\<rparr>]
   \<and> fst (plot_bar_chart uem_state ''SL.UEM.TOTL.ZS'' PyNone
            (Multiple [''CAN'', ''ITA'', ''JPN'']))
       = Inr \<lparr>plotted_year = PyStr ''2021'',
              barplot_data = [\<lparr>Year = ''2021'', Region = ''Italy'', value = Some 9.5\<rparr>,
                              \<lparr>Year = ''2021'', Region = ''Canada'', value = Some 7.5\<rparr>],
              title_year = PyStr ''2021''\<rparr>"
proof -
  have r: "requests (snd (plot_bar_chart uem_state ''SL.UEM.TOTL.ZS'' PyNone
                    (Multiple [''CAN'', ''ITA'', ''JPN''])))
     = requests uem_state @ [Download \<lparr>q_indicator = ''SL.UEM.TOTL.ZS'',
                                       q_country = Multiple [''CAN'', ''ITA'', ''JPN''],
                                       q_start = PyNone, q_end = PyNone\<rparr>]"
    using plot_bar_chart_default_year
      [of uem_state "''SL.UEM.TOTL.ZS''" "Multiple [''CAN'', ''ITA'', ''JPN'']"]
    by blast
  have p: "fst (plot_bar_chart uem_state ''SL.UEM.TOTL.ZS'' PyNone
                 (Multiple [''CAN'', ''ITA'', ''JPN'']))
       = Inr \<lparr>plotted_year = PyStr ''2021'',
              barplot_data = [\<lparr>Year = ''2021'', Region = ''Italy'', value = Some 9.5\<rparr>,
                              \<lparr>Year = ''2021'', Region = ''Canada'', value = Some 7.5\<rparr>],
              title_year = PyStr ''2021''\<rparr>"
    by (simp add: uem_run_latest)
  from r p show ?thesis
    by blast
qed


text \<open>Sorting by a key that tells the elements apart depends on the elements only, not
  on their order.\<close>

lemma filter_key_single:
  assumes "distinct (map f xs)" "k \<in> set xs"
  shows "filter (\<lambda>x. f k = f x) xs = [k]"
  using assms
proof (induction xs)
  case Nil
  then show ?case by simp
next
  case (Cons x xs)
  show ?case
  proof (cases "k = x")
    case True
    with Cons.prems have "\<forall>z \<in> set xs. f k \<noteq> f z" by auto
    with True show ?thesis by simp
  next
    case False
    with Cons.prems have k: "k \<in> set xs" and "f x \<notin> f ` set xs" by auto
    then have "f k \<noteq> f x" by (metis imageI)
    with Cons k show ?thesis by simp
  qed
qed

lemma sort_key_mset_cong:
  assumes "distinct (map f ys)" "mset xs = mset ys"
  shows "sort_key f xs = sort_key f ys"
proof (rule properties_for_sort_key)
  show "mset (sort_key f ys) = mset xs"
    using assms(2) by simp
  show "sorted (map f (sort_key f ys))"
    by (rule sorted_sort_key)
  fix k assume k: "k \<in> set (sort_key f ys)"
  have "mset (map f xs) = mset (map f ys)" "mset (map f (sort_key f ys)) = mset (map f ys)"
    using assms(2) by simp_all
  with assms(1) have d: "distinct (map f xs)" "distinct (map f (sort_key f ys))"
    using mset_eq_imp_distinct_iff by blast+
  from k assms(2) have "k \<in> set xs" "k \<in> set (sort_key f ys)"
    using mset_eq_setD by fastforce+
  with d show "filter (\<lambda>x. f k = f x) (sort_key f ys) = filter (\<lambda>x. f k = f x) xs"
    by (simp add: filter_key_single)
qed

text \<open>The descending sort of rows that all have a value.\<close>

lemma sort_values_desc_present:
  assumes "\<forall>r \<in> set df. value r \<noteq> None"
  shows "sort_values_desc df = sort_key (\<lambda>r. - the (value r)) df"
  using assms by (simp add: sort_values_desc_def)

lemma descending_sort_key:
  "sorted_wrt (\<lambda>p q. the (value q) \<le> the (value p))
     (sort_key (\<lambda>r. - the (value r)) (df :: indexed_row list))"
proof -
  have "sorted (map (\<lambda>r. - the (value r)) (sort_key (\<lambda>r. - the (value r)) df))"
    by (rule sorted_sort_key)
  then show ?thesis
    by (simp add: sorted_wrt_map)
qed

text \<open>No row of a fetched table lacks its value.\<close>

lemma get_wb_data_values:
  assumes "fst (get_wb_data s indicator start_yr end_yr sel save_csv) = Inr t"
  shows "\<forall>r \<in> set (rows t). value r \<noteq> None"
proof -
  from get_wb_data_result [OF assms] obtain df where
    "rows t = sort_key Region
         (map (\<lambda>r. \<lparr>Year = year r, Region = country r, value = val r\<rparr>) (dropna df))"
    by auto
  then show ?thesis
    by (auto simp: dropna_def)
qed

text \<open>
  Claim C8. The rows \<^verbatim>\<open>plot_bar_chart\<close> hands to the bar plot are in descending order of
  the indicator value, and each has a value. In particular, when the table fetched is
  three regions of one year with the values 5.1, 9.4 and 2.0, in whatever order the
  source sends them, and that year is the one plotted, the bars are the region of 9.4,
  then the region of 5.1, then the region of 2.0.
\<close>

theorem plot_bar_chart_descending:
  assumes "fst (plot_bar_chart s indicator year_arg sel) = Inr chart"
  shows "sorted_wrt (\<lambda>p q. the (value q) \<le> the (value p)) (barplot_data chart)
       \<and> None \<notin> set (map value (barplot_data chart))
       \<and> (\<forall>df a b c y.
             download s \<lparr>q_indicator = indicator, q_country = sel,
                         q_start = year_arg, q_end = year_arg\<rparr> = Inr df
           \<and> mset df = mset [\<lparr>country = a, year = y, val = Some 5.1\<rparr>,
                              \<lparr>country = b, year = y, val = Some 9.4\<rparr>,
                              \<lparr>country = c, year = y, val = Some 2.0\<rparr>]
           \<and> (year_arg = PyNone \<or> str year_arg = y)
           \<longrightarrow> map Region (barplot_data chart) = [b, a, c])"
proof -
  from plot_bar_chart_result [OF assms] obtain t where
    t: "fst (get_wb_data s indicator year_arg year_arg sel False) = Inr t"
    and py: "plotted_year chart = (if year_arg = PyNone then index_max (rows t) else year_arg)"
    and bd: "barplot_data chart
               = sort_values_desc
                   (sort_key Region (filter (\<lambda>r. Year r = str (plotted_year chart)) (rows t)))"
    by blast
  let ?xs = "sort_key Region (filter (\<lambda>r. Year r = str (plotted_year chart)) (rows t))"
  from get_wb_data_values [OF t] have pres: "\<forall>r \<in> set ?xs. value r \<noteq> None"
    by simp
  then have bars: "barplot_data chart = sort_key (\<lambda>r. - the (value r)) ?xs"
    unfolding bd by (rule sort_values_desc_present)
  have one: "sorted_wrt (\<lambda>p q. the (value q) \<le> the (value p)) (barplot_data chart)"
    unfolding bars by (rule descending_sort_key)
  have two: "None \<notin> set (map value (barplot_data chart))"
    unfolding bars using pres by force
  have three: "map Region (barplot_data chart) = [b, a, c]"
    if d: "download s \<lparr>q_indicator = indicator, q_country = sel,
                         q_start = year_arg, q_end = year_arg\<rparr> = Inr df"
      and m: "mset df = mset [\<lparr>country = a, year = y, val = Some 5.1\<rparr>,
                              \<lparr>country = b, year = y, val = Some 9.4\<rparr>,
                              \<lparr>country = c, year = y, val = Some 2.0\<rparr>]"
      and y: "year_arg = PyNone \<or> str year_arg = y" for df a b c y
  proof -
    let ?rs = "[\<lparr>Year = y, Region = a, value = Some 5.1\<rparr>,
                \<lparr>Year = y, Region = b, value = Some 9.4\<rparr>,
                \<lparr>Year = y, Region = c, value = Some 2.0\<rparr>]"
    from m have "set df = set [\<lparr>country = a, year = y, val = Some 5.1\<rparr>,
                               \<lparr>country = b, year = y, val = Some 9.4\<rparr>,
                               \<lparr>country = c, year = y, val = Some 2.0\<rparr>]"
      by (rule mset_eq_setD)
    then have "\<forall>r \<in> set df. val r \<noteq> None"
      by (simp del: not_None_eq)
    then have keep: "dropna df = df"
      by (simp add: dropna_def)
    from get_wb_data_result [OF t] d
    have "rows t = sort_key Region
                (map (\<lambda>r. \<lparr>Year = year r, Region = country r, value = val r\<rparr>) (dropna df))"
      by auto
    then have rt: "rows t = sort_key Region
                (map (\<lambda>r. \<lparr>Year = year r, Region = country r, value = val r\<rparr>) df)"
      by (simp only: keep)
    have "mset (rows t)
          = image_mset (\<lambda>r. \<lparr>Year = year r, Region = country r, value = val r\<rparr>) (mset df)"
      unfolding rt by simp
    with m have mr: "mset (rows t) = mset ?rs"
      by simp
    then have sr: "set (rows t) = set ?rs"
      by (rule mset_eq_setD)
    from mr have ne: "rows t \<noteq> []"
      by auto
    from sr have yr: "\<forall>r \<in> set (rows t). Year r = y"
      by auto
    from sr have ys: "set (map Year (rows t)) = {y}"
      by auto
    have "index_max (rows t) = PyStr y"
      using index_max_Max [OF ne] ys by simp
    with py y have "str (plotted_year chart) = y"
      by (auto simp: str_def)
    with yr have "filter (\<lambda>r. Year r = str (plotted_year chart)) (rows t) = rows t"
      by simp
    then have "mset ?xs = mset ?rs"
      by (simp add: mr)
    moreover have "distinct (map (\<lambda>r. - the (value r)) ?rs)"
      by simp
    ultimately have "sort_key (\<lambda>r. - the (value r)) ?xs = sort_key (\<lambda>r. - the (value r)) ?rs"
      by (intro sort_key_mset_cong)
    with bars show ?thesis
      by simp
  qed
  from one two three show ?thesis by blast
qed

theorem plot_bar_chart_descending_witness:
  "fst (plot_bar_chart uem_state ''SL.UEM.TOTL.ZS'' (PyInt 2019)
          (Multiple [''CAN'', ''ITA'', ''JPN'']))
   = Inr \<lparr>plotted_year = PyInt 2019,
          barplot_data = [\<lparr>Year = ''2019'', Region = ''Italy'', value = Some 9.4\<rparr>,
                          \<lparr>Year = ''2019'', Region = ''Canada'', value = Some 5.1\<rparr>,
                          \<lparr>Year = ''2019'', Region = ''Japan'', value = Some 2.0\<rparr>],
          title_year = PyStr ''2019''\<rparr>
   \<and> download uem_state (uem_query (PyInt 2019)) = Inr uem_2019
   \<and> mset uem_2019 = mset [\<lparr>country = ''Canada'', year = ''2019'', val = Some 5.1\<rparr>,
                            \<lparr>country = ''Italy'', year = ''2019'', val = Some 9.4\<rparr>,
                            \<lparr>country = ''Japan'', year = ''2019'', val = Some 2.0\<rparr>]
   \<and> str (PyInt 2019) = ''2019''
   \<and> map Region [\<lparr>Year = ''2019'', Region = ''Italy'', value = Some 9.4\<rparr>,
                  \<lparr>Year = ''2019'', Region = ''Canada'', value = Some 5.1\<rparr>,
                  \<lparr>Year = ''2019'', Region = ''Japan'', value = Some 2.0\<rparr>]
       = [''Italy'', ''Canada'', ''Japan'']
   \<and> sorted_wrt (\<lambda>p q. the (value q) \<le> the (value p))
        [\<lparr>Year = ''2019'', Region = ''Italy'', value = Some 9.4\<rparr>,
         \<lparr>Year = ''2019'', Region = ''Canada'', value = Some 5.1\<rparr>,
         \<lparr>Year = ''2019'', Region = ''Japan'', value = Some 2.0\<rparr>]"
proof -
  have h: "fst (plot_bar_chart uem_state ''SL.UEM.TOTL.ZS'' (PyInt 2019)
          (Multiple [''CAN'', ''ITA'', ''JPN'']))
   = Inr \<lparr>plotted_year = PyInt 2019,
          barplot_data = [\<lparr>Year = ''2019'', Region = ''Italy'', value = Some 9.4\<rparr>,
                          \<lparr>Year = ''2019'', Region = ''Canada'', value = Some 5.1\<rparr>,
                          \<lparr>Year = ''2019'', Region = ''Japan'', value = Some 2.0\<rparr>],
          title_year = PyStr ''2019''\<rparr>"
    by (rule uem_run_2019)
  have d: "download uem_state \<lparr>q_indicator = ''SL.UEM.TOTL.ZS'',
                               q_country = Multiple [''CAN'', ''ITA'', ''JPN''],
                               q_start = PyInt 2019, q_end = PyInt 2019\<rparr> = Inr uem_2019"
    by (simp add: uem_state_def uem_query_def)
  have m: "mset uem_2019 = mset [\<lparr>country = ''Canada'', year = ''2019'', val = Some 5.1\<rparr>,
                                 \<lparr>country = ''Italy'', year = ''2019'', val = Some 9.4\<rparr>,
                                 \<lparr>country = ''Japan'', year = ''2019'', val = Some 2.0\<rparr>]"
    by (simp only: uem_2019_def)
  have s: "str (PyInt 2019) = ''2019''"
    by (simp add: str_def)
  from plot_bar_chart_descending [OF h] d m s
  have "sorted_wrt (\<lambda>p q. the (value q) \<le> the (value p))
        [\<lparr>Year = ''2019'', Region = ''Italy'', value = Some 9.4\<rparr>,
         \<lparr>Year = ''2019'', Region = ''Canada'', value = Some 5.1\<rparr>,
         \<lparr>Year = ''2019'', Region = ''Japan'', value = Some 2.0\<rparr>]
      \<and> map Region [\<lparr>Year = ''2019'', Region = ''Italy'', value = Some 9.4\<rparr>,
                  \<lparr>Year = ''2019'', Region = ''Canada'', value = Some 5.1\<rparr>,
                  \<lparr>Year = ''2019'', Region = ''Japan'', value = Some 2.0\<rparr>]
       = [''Italy'', ''Canada'', ''Japan'']"
    by simp
  have d': "download uem_state (uem_query (PyInt 2019)) = Inr uem_2019"
    using d by (simp only: uem_query_def)
  from h d' m s \<open>sorted_wrt (\<lambda>p q. the (value q) \<le> the (value p))
        [\<lparr>Year = ''2019'', Region = ''Italy'', value = Some 9.4\<rparr>,
         \<lparr>Year = ''2019'', Region = ''Canada'', value = Some 5.1\<rparr>,
         \<lparr>Year = ''2019'', Region = ''Japan'', value = Some 2.0\<rparr>]
      \<and> map Region [\<lparr>Year = ''2019'', Region = ''Italy'', value = Some 9.4\<rparr>,
                  \<lparr>Year = ''2019'', Region = ''Canada'', value = Some 5.1\<rparr>,
                  \<lparr>Year = ''2019'', Region = ''Japan'', value = Some 2.0\<rparr>]
       = [''Italy'', ''Canada'', ''Japan'']\<close>
  show ?thesis
    by blast
qed

end
